theory Spec2Isabelle
  imports Main
begin

section \<open>Retrieval back ends of the conversational search pipeline\<close>

text \<open>
  A shallow embedding of \<^verbatim>\<open>code/core/retrieval/search_engine.py\<close>: the abstract class
  \<^verbatim>\<open>Retrieval\<close> with its template method \<^verbatim>\<open>get_results\<close>, and the two back ends
  \<^verbatim>\<open>Indri\<close> and \<^verbatim>\<open>BingWebSearch\<close>.

  The module is glue code around collaborators that live outside it: the HTTP client, the
  process runner, the index library, the query generator and the logger. Every call to one
  of them is an entry of a trace, a list of events in the order the calls are made, and its
  answer is read from an environment of oracles. An oracle is given the trace as it stands
  before the call, so an answer may depend on everything that happened earlier. Every
  operation takes the trace and returns the extended trace together with either the error
  it raised or its value.
\<close>

subsection \<open>Values, errors, events\<close>

text \<open>
  The values a configuration dict holds and that are passed on to the collaborators.
  Python's \<^verbatim>\<open>bool\<close> is a subclass of \<^verbatim>\<open>int\<close>. The two capability objects are opaque;
  what they do is part of the environment.
\<close>

datatype pyval = PInt int | PStr string | PBool bool | PLogger | PQueryGeneration

type_synonym params = "string \<rightharpoonup> pyval"

text \<open>
  The exceptions. \<open>UnsupportedFormat\<close> is
  \<^verbatim>\<open>Exception('The requested text format is not supported!')\<close>, \<open>HTTPError\<close> is what
  \<^verbatim>\<open>raise_for_status\<close> raises, and \<open>Raised\<close> is any exception that comes out of a
  collaborator.
\<close>

datatype error =
    KeyError string
  | IndexError
  | TypeError
  | AttributeError
  | HTTPError int
  | UnsupportedFormat
  | Raised string

datatype 'm event =
    GetQuery "'m list"
  | LogInfo string
  | LogWarning string
  | HttpGet string "(string \<times> pyval) list" "(string \<times> pyval) list"
  | ProcessRun "pyval list"
  | IndexOpen pyval
  | IndexGetDictionary
  | IndexGetTermFrequencies
  | IndexQuery string pyval

text \<open>The calls to the query generator, which some properties count.\<close>

fun is_GetQuery :: "'m event \<Rightarrow> bool" where
  "is_GetQuery (GetQuery conv_list) = True"
| "is_GetQuery e = False"

subsection \<open>Documents and HTTP responses\<close>

text \<open>
  Modelled from the spec: the class \<^verbatim>\<open>Document\<close> of \<^verbatim>\<open>code/core/retrieval/doc.py\<close>, which
  is a value with the four fields \<^verbatim>\<open>id\<close>, \<^verbatim>\<open>title\<close>, \<^verbatim>\<open>text\<close> and \<^verbatim>\<open>score\<close>, built as
  \<^verbatim>\<open>Document(id, title, text, score)\<close>. The fields carry the prefix \<open>doc_\<close> here, since
  \<open>id\<close> is a constant of HOL and \<open>text\<close> a keyword. The score is a number whose kind
  depends on the back end (the index engine's own score, an integer for the web back end),
  so its type is a parameter.
\<close>

record 's Document =
  doc_id :: string
  doc_title :: string
  doc_text :: string
  doc_score :: 's

text \<open>
  One entry of \<^verbatim>\<open>webPages.value\<close> is a JSON object with string members; the parsed body
  of the search response is an object of objects of such lists, read as
  \<^verbatim>\<open>search_results['webPages']['value']\<close>.
\<close>

type_synonym hit = "string \<rightharpoonup> string"

type_synonym search_results = "string \<rightharpoonup> (string \<rightharpoonup> hit list)"

text \<open>
  What \<^verbatim>\<open>requests.get\<close> returns: the status code, the body (\<^verbatim>\<open>.content\<close>) and what
  \<^verbatim>\<open>.json()\<close> gives, which is an error when the body does not parse.
\<close>

record response =
  status_code :: int
  content :: string
  json :: "error + search_results"

subsection \<open>The environment\<close>

text \<open>
  The collaborators. \<open>get_trec_doc\<close> and \<open>html_to_clean_text\<close> are functions of this
  repository (\<^verbatim>\<open>code/core/retrieval/doc.py\<close>, \<^verbatim>\<open>code/util/text_parser.py\<close>) whose sources
  are not part of the module, so they are parameters. \<open>stripped_strings\<close> stands for
  \<^verbatim>\<open>' '.join(BeautifulSoup(text, "html.parser").stripped_strings)\<close>, and \<open>run_stdout\<close> for
  \<^verbatim>\<open>subprocess.run(argv, stdout=subprocess.PIPE).stdout.decode('UTF-8')\<close>.
\<close>

record ('m, 's) env =
  get_query :: "'m event list \<Rightarrow> 'm list \<Rightarrow> error + string"
  http_get :: "'m event list \<Rightarrow> string \<Rightarrow> (string \<times> pyval) list \<Rightarrow> (string \<times> pyval) list
                 \<Rightarrow> error + response"
  run_stdout :: "'m event list \<Rightarrow> pyval list \<Rightarrow> error + string"
  pyndri_Index :: "'m event list \<Rightarrow> pyval \<Rightarrow> error + unit"
  get_dictionary :: "'m event list \<Rightarrow> error + unit"
  get_term_frequencies :: "'m event list \<Rightarrow> error + unit"
  index_query :: "'m event list \<Rightarrow> string \<Rightarrow> pyval \<Rightarrow> error + (int \<times> 's) list"
  get_trec_doc :: "string \<Rightarrow> error + 's Document"
  html_to_clean_text :: "string \<Rightarrow> string"
  stripped_strings :: "string \<Rightarrow> string"

type_synonym ('m, 'a) io = "'m event list \<Rightarrow> 'm event list \<times> (error + 'a)"

subsection \<open>Python built-ins the module uses\<close>

text \<open>\<^verbatim>\<open>str\<close> of an integer: its decimal digits, with a minus sign when negative.\<close>

fun str_nat :: "nat \<Rightarrow> string" where
  "str_nat n =
     (if n < 10 then [''0123456789'' ! n]
      else str_nat (n div 10) @ [''0123456789'' ! (n mod 10)])"

definition str_int :: "int \<Rightarrow> string" where
  "str_int i = (if i < 0 then CHR ''-'' # str_nat (nat (- i)) else str_nat (nat i))"

text \<open>
  The integer a value stands for where Python compares it with a length and passes it
  to \<^verbatim>\<open>range\<close>; the other values make \<^verbatim>\<open>min\<close> raise \<^verbatim>\<open>TypeError\<close>.
\<close>

fun as_int :: "pyval \<Rightarrow> error + int" where
  "as_int (PInt n) = Inr n"
| "as_int (PBool b) = Inr (if b then 1 else 0)"
| "as_int v = Inl TypeError"

text \<open>
  \<^verbatim>\<open>os.path.join(a, b)\<close> on POSIX for a relative, non-empty \<open>b\<close>: the separator is
  inserted unless \<open>a\<close> is empty or ends with one.
\<close>

fun os_path_join :: "pyval \<Rightarrow> string \<Rightarrow> error + string" where
  "os_path_join (PStr a) b =
     Inr (if a = [] \<or> last a = CHR ''/'' then a @ b else a @ ''/'' @ b)"
| "os_path_join v b = Inl TypeError"

text \<open>\<^verbatim>\<open>Response.raise_for_status\<close>: raises for the 4xx and 5xx codes.\<close>

definition raise_for_status :: "response \<Rightarrow> error + unit" where
  "raise_for_status r =
     (if 400 \<le> status_code r \<and> status_code r < 600 then Inl (HTTPError (status_code r))
      else Inr ())"

subsection \<open>Class \<^verbatim>\<open>Retrieval\<close>\<close>

record Retrieval =
  params :: params
  query_generation :: pyval

definition Retrieval_init :: "params \<Rightarrow> error + Retrieval" where
  "Retrieval_init ps =
     (case ps ''query_generation'' of
        None \<Rightarrow> Inl (KeyError ''query_generation'')
      | Some qg \<Rightarrow> Inr \<lparr>params = ps, query_generation = qg\<rparr>)"

text \<open>
  \<^verbatim>\<open>get_results\<close> is written once for every back end; the back end's \<^verbatim>\<open>retrieve\<close> is
  the argument \<open>retrieve\<close>. A value that is not the capability has no method to call, which
  is an \<^verbatim>\<open>AttributeError\<close>. The query generator may raise; a call to the logger returns.
\<close>

definition get_results ::
  "('m, 's) env \<Rightarrow> (string \<Rightarrow> ('m, 'd list) io) \<Rightarrow> 'z Retrieval_scheme \<Rightarrow> 'm list
     \<Rightarrow> ('m, 'd list) io" where
  "get_results env retrieve self conv_list tr =
     (if query_generation self \<noteq> PQueryGeneration then (tr, Inl AttributeError)
      else
        (case get_query env tr conv_list of
           Inl e \<Rightarrow> (tr @ [GetQuery conv_list], Inl e)
         | Inr query \<Rightarrow>
             (case params self ''logger'' of
                None \<Rightarrow> (tr @ [GetQuery conv_list], Inl (KeyError ''logger''))
              | Some lg \<Rightarrow>
                  if lg \<noteq> PLogger then (tr @ [GetQuery conv_list], Inl AttributeError)
                  else retrieve query
                         (tr @ [GetQuery conv_list, LogInfo (''New query: '' @ query)]))))"

subsection \<open>Class \<^verbatim>\<open>Indri\<close>\<close>

text \<open>
  The object keeps the configuration, the result count and the toolkit path. The index
  handle and the dictionary tables that the constructor loads are held by the index
  library; no method of the module reads the tables.
\<close>

record Indri = Retrieval +
  results_requested :: pyval
  indri_path :: pyval

definition Indri_init :: "('m, 's) env \<Rightarrow> params \<Rightarrow> ('m, Indri) io" where
  "Indri_init env ps tr =
     (case Retrieval_init ps of
        Inl e \<Rightarrow> (tr, Inl e)
      | Inr base \<Rightarrow>
          let rr = (if ps ''results_requested'' \<noteq> None then the (ps ''results_requested'')
                    else PInt 1)
          in (case ps ''indri_path'' of
                None \<Rightarrow> (tr, Inl (KeyError ''indri_path''))
              | Some ip \<Rightarrow>
                  (case ps ''index'' of
                     None \<Rightarrow> (tr, Inl (KeyError ''index''))
                   | Some ix \<Rightarrow>
                       (case pyndri_Index env tr ix of
                          Inl e \<Rightarrow> (tr @ [IndexOpen ix], Inl e)
                        | Inr _ \<Rightarrow>
                            (case get_dictionary env (tr @ [IndexOpen ix]) of
                               Inl e \<Rightarrow> (tr @ [IndexOpen ix, IndexGetDictionary], Inl e)
                             | Inr _ \<Rightarrow>
                                 (case get_term_frequencies env
                                         (tr @ [IndexOpen ix, IndexGetDictionary]) of
                                    Inl e \<Rightarrow>
                                      (tr @ [IndexOpen ix, IndexGetDictionary,
                                             IndexGetTermFrequencies], Inl e)
                                  | Inr _ \<Rightarrow>
                                      (tr @ [IndexOpen ix, IndexGetDictionary,
                                             IndexGetTermFrequencies],
                                       Inr \<lparr>params = ps,
                                            query_generation = query_generation base,
                                            results_requested = rr,
                                            indri_path = ip\<rparr>)))))))"

text \<open>
  \<^verbatim>\<open>get_doc_from_index\<close>: the argument list is built first (the path is joined, the
  index path is read from the configuration, the id is rendered), the dump utility runs,
  and only then is \<^verbatim>\<open>text_format\<close> looked at.
\<close>

definition Indri_get_doc_from_index ::
  "('m, 's) env \<Rightarrow> Indri \<Rightarrow> int \<Rightarrow> ('m, 's Document list) io" where
  "Indri_get_doc_from_index env self doc_id' tr =
     (case os_path_join (indri_path self) ''dumpindex/dumpindex'' of
        Inl e \<Rightarrow> (tr, Inl e)
      | Inr exe \<Rightarrow>
          (case params self ''index'' of
             None \<Rightarrow> (tr, Inl (KeyError ''index''))
           | Some ix \<Rightarrow>
               (case run_stdout env tr [PStr exe, ix, PStr ''dt'', PStr (str_int doc_id')] of
                  Inl e \<Rightarrow>
                    (tr @ [ProcessRun [PStr exe, ix, PStr ''dt'', PStr (str_int doc_id')]],
                     Inl e)
                | Inr content' \<Rightarrow>
                    (tr @ [ProcessRun [PStr exe, ix, PStr ''dt'', PStr (str_int doc_id')]],
                     (case params self ''text_format'' of
                        None \<Rightarrow> Inl (KeyError ''text_format'')
                      | Some tf \<Rightarrow>
                          if tf = PStr ''trectext'' then
                            (case get_trec_doc env content' of
                               Inl e \<Rightarrow> Inl e
                             | Inr doc \<Rightarrow> Inr [doc])
                          else Inl UnsupportedFormat)))))"

text \<open>The body of the \<^verbatim>\<open>for\<close> loop of \<^verbatim>\<open>retrieve\<close>, over the engine's ranked pairs.\<close>

fun Indri_retrieve_loop ::
  "('m, 's) env \<Rightarrow> Indri \<Rightarrow> (int \<times> 's) list \<Rightarrow> 's Document list
     \<Rightarrow> ('m, 's Document list) io" where
  "Indri_retrieve_loop env self [] results tr = (tr, Inr results)"
| "Indri_retrieve_loop env self ((int_doc_id, score) # rest) results tr =
     (case Indri_get_doc_from_index env self int_doc_id tr of
        (tr', Inl e) \<Rightarrow> (tr', Inl e)
      | (tr', Inr []) \<Rightarrow> (tr', Inl IndexError)
      | (tr', Inr (doc # _)) \<Rightarrow>
          Indri_retrieve_loop env self rest
            (results @ [doc\<lparr>doc_score := score, doc_id := str_int int_doc_id\<rparr>]) tr')"

definition Indri_retrieve :: "('m, 's) env \<Rightarrow> Indri \<Rightarrow> string \<Rightarrow> ('m, 's Document list) io" where
  "Indri_retrieve env self query tr =
     (case index_query env tr query (results_requested self) of
        Inl e \<Rightarrow> (tr @ [IndexQuery query (results_requested self)], Inl e)
      | Inr int_results \<Rightarrow>
          Indri_retrieve_loop env self int_results []
            (tr @ [IndexQuery query (results_requested self)]))"

subsection \<open>Class \<^verbatim>\<open>BingWebSearch\<close>\<close>

record BingWebSearch = Retrieval +
  results_requested :: pyval
  subscription_key :: pyval
  bing_api_url :: string
  header :: "(string \<times> pyval) list"

definition BingWebSearch_init :: "params \<Rightarrow> ('m, BingWebSearch) io" where
  "BingWebSearch_init ps tr =
     (case Retrieval_init ps of
        Inl e \<Rightarrow> (tr, Inl e)
      | Inr base \<Rightarrow>
          let rr = (if ps ''results_requested'' \<noteq> None then the (ps ''results_requested'')
                    else PInt 1)
          in (case ps ''bing_key'' of
                None \<Rightarrow> (tr, Inl (KeyError ''bing_key''))
              | Some k \<Rightarrow>
                  (case ps ''logger'' of
                     None \<Rightarrow> (tr, Inl (KeyError ''logger''))
                   | Some lg \<Rightarrow>
                       if lg \<noteq> PLogger then (tr, Inl AttributeError)
                       else
                         (tr @ [LogWarning
                            ''There is a maximum number of transactions per second for the Bing API.''],
                          Inr \<lparr>params = ps,
                               query_generation = query_generation base,
                               results_requested = rr,
                               subscription_key = k,
                               bing_api_url =
                                 ''https://api.cognitive.microsoft.com/bing/v7.0/search'',
                               header = [(''Ocp-Apim-Subscription-Key'', k)]\<rparr>))))"

text \<open>\<^verbatim>\<open>search_results['webPages']['value']\<close> and one member of its \<open>i\<close>-th entry.\<close>

definition webPages_value :: "search_results \<Rightarrow> error + hit list" where
  "webPages_value search_results =
     (case search_results ''webPages'' of
        None \<Rightarrow> Inl (KeyError ''webPages'')
      | Some web_pages \<Rightarrow>
          (case web_pages ''value'' of
             None \<Rightarrow> Inl (KeyError ''value'')
           | Some v \<Rightarrow> Inr v))"

definition hit_member :: "search_results \<Rightarrow> nat \<Rightarrow> string \<Rightarrow> error + string" where
  "hit_member search_results i k =
     (case webPages_value search_results of
        Inl e \<Rightarrow> Inl e
      | Inr v \<Rightarrow>
          if i < length v then
            (case (v ! i) k of None \<Rightarrow> Inl (KeyError k) | Some s \<Rightarrow> Inr s)
          else Inl IndexError)"

definition page_headers :: "(string \<times> pyval) list" where
  "page_headers =
     [(''User-Agent'',
       PStr ''Mozilla/5.0 (Windows NT 6.0; WOW64; rv:24.0) Gecko/20100101 Firefox/24.0'')]"

text \<open>
  The \<^verbatim>\<open>for\<close> loop of \<^verbatim>\<open>retrieve\<close> over the indices of \<^verbatim>\<open>range(...)\<close>. The variable
  \<^verbatim>\<open>text\<close> is assigned three times: the snippet, the snippet without markup, and the
  cleaned page, which is the one that reaches the document.
\<close>

fun BingWebSearch_retrieve_loop ::
  "('m, 's) env \<Rightarrow> search_results \<Rightarrow> nat list \<Rightarrow> int Document list
     \<Rightarrow> ('m, int Document list) io" where
  "BingWebSearch_retrieve_loop env search_results [] results tr = (tr, Inr results)"
| "BingWebSearch_retrieve_loop env search_results (i # is) results tr =
     (case hit_member search_results i ''url'' of
        Inl e \<Rightarrow> (tr, Inl e)
      | Inr ident \<Rightarrow>
          (case hit_member search_results i ''name'' of
             Inl e \<Rightarrow> (tr, Inl e)
           | Inr title \<Rightarrow>
               (case hit_member search_results i ''snippet'' of
                  Inl e \<Rightarrow> (tr, Inl e)
                | Inr text \<Rightarrow>
                    let text = stripped_strings env text;
                        headers = page_headers
                    in (case http_get env tr ident headers [] of
                          Inl e \<Rightarrow> (tr @ [HttpGet ident headers []], Inl e)
                        | Inr page \<Rightarrow>
                            let text = html_to_clean_text env (content page);
                                score = 10 - int i
                            in BingWebSearch_retrieve_loop env search_results is
                                 (results @
                                    [\<lparr>doc_id = ident, doc_title = title, doc_text = text,
                                      doc_score = score\<rparr>])
                                 (tr @ [HttpGet ident headers []])))))"

definition search_params :: "string \<Rightarrow> (string \<times> pyval) list" where
  "search_params query =
     [(''q'', PStr query), (''textDecorations'', PBool True), (''textFormat'', PStr ''HTML'')]"

definition BingWebSearch_retrieve ::
  "('m, 's) env \<Rightarrow> BingWebSearch \<Rightarrow> string \<Rightarrow> ('m, int Document list) io" where
  "BingWebSearch_retrieve env self query tr =
     (case http_get env tr (bing_api_url self) (header self) (search_params query) of
        Inl e \<Rightarrow> (tr @ [HttpGet (bing_api_url self) (header self) (search_params query)], Inl e)
      | Inr response \<Rightarrow>
          (case raise_for_status response of
             Inl e \<Rightarrow>
               (tr @ [HttpGet (bing_api_url self) (header self) (search_params query)], Inl e)
           | Inr _ \<Rightarrow>
               (case json response of
                  Inl e \<Rightarrow>
                    (tr @ [HttpGet (bing_api_url self) (header self) (search_params query)],
                     Inl e)
                | Inr search_results \<Rightarrow>
                    (case webPages_value search_results of
                       Inl e \<Rightarrow>
                         (tr @ [HttpGet (bing_api_url self) (header self)
                                  (search_params query)], Inl e)
                     | Inr v \<Rightarrow>
                         (case as_int (results_requested self) of
                            Inl e \<Rightarrow>
                              (tr @ [HttpGet (bing_api_url self) (header self)
                                       (search_params query)], Inl e)
                          | Inr n \<Rightarrow>
                              BingWebSearch_retrieve_loop env search_results
                                [0 ..< nat (min (int (length v)) n)] []
                                (tr @ [HttpGet (bing_api_url self) (header self)
                                         (search_params query)]))))))"

definition BingWebSearch_get_doc_from_index ::
  "BingWebSearch \<Rightarrow> string \<Rightarrow> ('m, int Document list) io" where
  "BingWebSearch_get_doc_from_index self doc_id' tr =
     (tr, Inr [\<lparr>doc_id = doc_id', doc_title = doc_id', doc_text = doc_id', doc_score = - 1\<rparr>])"

subsection \<open>A concrete environment\<close>

text \<open>
  The scenarios of the specification: a configuration that asks for three results, a
  search API that answers with five hits, and an index engine that answers with two
  ranked pairs. Messages are strings and engine scores are integers here.
\<close>

definition example_params :: params where
  "example_params =
     [''query_generation'' \<mapsto> PQueryGeneration, ''logger'' \<mapsto> PLogger,
      ''results_requested'' \<mapsto> PInt 3, ''bing_key'' \<mapsto> PStr ''key'',
      ''indri_path'' \<mapsto> PStr ''/opt/indri'', ''index'' \<mapsto> PStr ''/data/index'',
      ''text_format'' \<mapsto> PStr ''trectext'']"

definition example_params_default :: params where
  "example_params_default =
     [''query_generation'' \<mapsto> PQueryGeneration, ''logger'' \<mapsto> PLogger,
      ''bing_key'' \<mapsto> PStr ''key'',
      ''indri_path'' \<mapsto> PStr ''/opt/indri'', ''index'' \<mapsto> PStr ''/data/index'',
      ''text_format'' \<mapsto> PStr ''trectext'']"

definition example_params_html :: params where
  "example_params_html = example_params(''text_format'' \<mapsto> PStr ''html'')"

definition example_hit :: "string \<Rightarrow> hit" where
  "example_hit s =
     [''url'' \<mapsto> ''http://'' @ s, ''name'' \<mapsto> ''Page '' @ s, ''snippet'' \<mapsto> ''<b>'' @ s @ ''</b>'']"

definition example_search_results :: search_results where
  "example_search_results =
     [''webPages'' \<mapsto>
        [''value'' \<mapsto>
           [example_hit ''a'', example_hit ''b'', example_hit ''c'', example_hit ''d'',
            example_hit ''e'']]]"

definition example_env :: "(string, int) env" where
  "example_env =
     \<lparr>get_query = (\<lambda>tr conv_list. Inr ''climate policy''),
      http_get = (\<lambda>tr url headers ps.
        if url = ''https://api.cognitive.microsoft.com/bing/v7.0/search''
        then Inr \<lparr>status_code = 200, content = [], json = Inr example_search_results\<rparr>
        else Inr \<lparr>status_code = 200, content = ''<p>'' @ url,
                  json = Inl (Raised ''JSONDecodeError'')\<rparr>),
      run_stdout = (\<lambda>tr argv. Inr ''<DOC>''),
      pyndri_Index = (\<lambda>tr path. Inr ()),
      get_dictionary = (\<lambda>tr. Inr ()),
      get_term_frequencies = (\<lambda>tr. Inr ()),
      index_query = (\<lambda>tr query n. Inr [(7, - 3), (12, - 5)]),
      get_trec_doc = (\<lambda>c. Inr \<lparr>doc_id = ''AP-1'', doc_title = [], doc_text = c,
                                  doc_score = 0\<rparr>),
      html_to_clean_text = drop 3,
      stripped_strings = (\<lambda>s. s)\<rparr>"

text \<open>The same environment with a search API that answers 503.\<close>

definition example_env_unavailable :: "(string, int) env" where
  "example_env_unavailable =
     example_env\<lparr>http_get := (\<lambda>tr url headers ps.
        Inr \<lparr>status_code = 503, content = [], json = Inl (Raised ''JSONDecodeError'')\<rparr>)\<rparr>"

text \<open>The objects the two constructors build from \<open>example_params\<close>.\<close>

definition example_bing :: BingWebSearch where
  "example_bing =
     \<lparr>params = example_params, query_generation = PQueryGeneration,
      results_requested = PInt 3, subscription_key = PStr ''key'',
      bing_api_url = ''https://api.cognitive.microsoft.com/bing/v7.0/search'',
      header = [(''Ocp-Apim-Subscription-Key'', PStr ''key'')]\<rparr>"

definition example_indri :: Indri where
  "example_indri =
     \<lparr>params = example_params, query_generation = PQueryGeneration,
      Indri.results_requested = PInt 3, indri_path = PStr ''/opt/indri''\<rparr>"

definition example_indri_html :: Indri where
  "example_indri_html = example_indri\<lparr>params := example_params_html\<rparr>"



text \<open>
  What the web back end does in this environment for the query \<open>climate policy\<close>: the
  calls it makes and the documents it returns.
\<close>

definition example_trace :: "string event list" where
  "example_trace =
     [HttpGet ''https://api.cognitive.microsoft.com/bing/v7.0/search''
        [(''Ocp-Apim-Subscription-Key'', PStr ''key'')]
        [(''q'', PStr ''climate policy''), (''textDecorations'', PBool True),
         (''textFormat'', PStr ''HTML'')],
      HttpGet ''http://a'' page_headers [],
      HttpGet ''http://b'' page_headers [],
      HttpGet ''http://c'' page_headers []]"

definition example_docs :: "int Document list" where
  "example_docs =
     [\<lparr>doc_id = ''http://a'', doc_title = ''Page a'', doc_text = ''http://a'', doc_score = 10\<rparr>,
      \<lparr>doc_id = ''http://b'', doc_title = ''Page b'', doc_text = ''http://b'', doc_score = 9\<rparr>,
      \<lparr>doc_id = ''http://c'', doc_title = ''Page c'', doc_text = ''http://c'', doc_score = 8\<rparr>]"

text \<open>And what the index back end does for the same query.\<close>

definition example_indri_docs :: "int Document list" where
  "example_indri_docs =
     [\<lparr>doc_id = ''7'', doc_title = [], doc_text = ''<DOC>'', doc_score = - 3\<rparr>,
      \<lparr>doc_id = ''12'', doc_title = [], doc_text = ''<DOC>'', doc_score = - 5\<rparr>]"

definition example_indri_trace :: "string event list" where
  "example_indri_trace =
     [IndexQuery ''climate policy'' (PInt 3),
      ProcessRun [PStr ''/opt/indri/dumpindex/dumpindex'', PStr ''/data/index'', PStr ''dt'',
                  PStr ''7''],
      ProcessRun [PStr ''/opt/indri/dumpindex/dumpindex'', PStr ''/data/index'', PStr ''dt'',
                  PStr ''12'']]"

section \<open>Properties of the web-search back end\<close>

subsection \<open>The loop and the successful runs of \<^verbatim>\<open>retrieve\<close>\<close>

text \<open>
  What a run of the loop that returns has done: it appended one document per index, whose
  id and title are the hit's \<^verbatim>\<open>url\<close> and \<^verbatim>\<open>name\<close> and whose score is \<open>10 - i\<close>; it
  fetched one page per document, in order; and each document's text is the cleaned body
  of the page that its own fetch returned.
\<close>

lemma bing_loop_docs:
  "BingWebSearch_retrieve_loop env sr is results tr = (tr', Inr docs) \<Longrightarrow>
   \<exists>new. docs = results @ new \<and>
     list_all2 (\<lambda>i d. hit_member sr i ''url'' = Inr (doc_id d) \<and>
                      hit_member sr i ''name'' = Inr (doc_title d) \<and>
                      doc_score d = 10 - int i) is new \<and>
     tr' = tr @ map (\<lambda>d. HttpGet (doc_id d) page_headers []) new \<and>
     (\<forall>k < length new. \<exists>page.
        http_get env (tr @ map (\<lambda>d. HttpGet (doc_id d) page_headers []) (take k new))
          (doc_id (new ! k)) page_headers [] = Inr page \<and>
        doc_text (new ! k) = html_to_clean_text env (content page))"
proof (induction "is" arbitrary: results tr)
  case Nil
  then show ?case by simp
next
  case (Cons i "is")
  from Cons.prems obtain ident title snip page where
    u: "hit_member sr i ''url'' = Inr ident" and
    n: "hit_member sr i ''name'' = Inr title" and
    s: "hit_member sr i ''snippet'' = Inr snip" and
    g: "http_get env tr ident page_headers [] = Inr page" and
    rec: "BingWebSearch_retrieve_loop env sr is
            (results @ [\<lparr>doc_id = ident, doc_title = title,
                         doc_text = html_to_clean_text env (content page),
                         doc_score = 10 - int i\<rparr>])
            (tr @ [HttpGet ident page_headers []]) = (tr', Inr docs)"
    by (auto simp: Let_def split: sum.splits)
  define d where "d = \<lparr>doc_id = ident, doc_title = title,
                         doc_text = html_to_clean_text env (content page),
                         doc_score = 10 - int i\<rparr>"
  from Cons.IH [OF rec] obtain new where
    docs: "docs = (results @ [d]) @ new" and
    all2: "list_all2 (\<lambda>i d. hit_member sr i ''url'' = Inr (doc_id d) \<and>
                      hit_member sr i ''name'' = Inr (doc_title d) \<and>
                      doc_score d = 10 - int i) is new" and
    tr': "tr' = (tr @ [HttpGet ident page_headers []]) @ map (\<lambda>d. HttpGet (doc_id d) page_headers []) new" and
    pages: "\<forall>k < length new. \<exists>page.
        http_get env ((tr @ [HttpGet ident page_headers []]) @
                      map (\<lambda>d. HttpGet (doc_id d) page_headers []) (take k new))
          (doc_id (new ! k)) page_headers [] = Inr page \<and>
        doc_text (new ! k) = html_to_clean_text env (content page)"
    unfolding d_def by blast
  have "\<exists>page. http_get env (tr @ map (\<lambda>d. HttpGet (doc_id d) page_headers []) (take k (d # new)))
          (doc_id ((d # new) ! k)) page_headers [] = Inr page \<and>
        doc_text ((d # new) ! k) = html_to_clean_text env (content page)"
    if "k < length (d # new)" for k
  proof (cases k)
    case 0
    with g show ?thesis by (simp add: d_def)
  next
    case (Suc j)
    with that have "j < length new" by simp
    with pages Suc show ?thesis by (simp add: d_def)
  qed
  with docs all2 tr' u n show ?case
    by (intro exI [of _ "d # new"]) (simp add: d_def)
qed


lemma bing_retrieve_ok:
  assumes "BingWebSearch_retrieve env self query tr = (tr', Inr docs)"
  shows "\<exists>r sr v n.
           http_get env tr (bing_api_url self) (header self) (search_params query) = Inr r \<and>
           raise_for_status r = Inr () \<and> json r = Inr sr \<and> webPages_value sr = Inr v \<and>
           as_int (BingWebSearch.results_requested self) = Inr n \<and>
           BingWebSearch_retrieve_loop env sr [0 ..< nat (min (int (length v)) n)] []
             (tr @ [HttpGet (bing_api_url self) (header self) (search_params query)])
           = (tr', Inr docs)"
  using assms by (auto simp: BingWebSearch_retrieve_def split: sum.splits)

lemma hit_member_Inr:
  "webPages_value sr = Inr v \<Longrightarrow> hit_member sr i k = Inr s \<Longrightarrow> i < length v \<and> (v ! i) k = Some s"
  by (auto simp: hit_member_def split: if_splits option.splits)

lemma bing_retrieve_docs:
  assumes "BingWebSearch_retrieve env self query tr = (tr', Inr docs)"
  shows "\<exists>r sr v n.
           http_get env tr (bing_api_url self) (header self) (search_params query) = Inr r \<and>
           raise_for_status r = Inr () \<and> json r = Inr sr \<and> webPages_value sr = Inr v \<and>
           as_int (BingWebSearch.results_requested self) = Inr n \<and>
           length docs = nat (min (int (length v)) n) \<and>
           (\<forall>i < length docs. (v ! i) ''url'' = Some (doc_id (docs ! i)) \<and>
                               (v ! i) ''name'' = Some (doc_title (docs ! i)) \<and>
                               doc_score (docs ! i) = 10 - int i) \<and>
           tr' = tr @ HttpGet (bing_api_url self) (header self) (search_params query) #
                      map (\<lambda>d. HttpGet (doc_id d) page_headers []) docs \<and>
           (\<forall>i < length docs. \<exists>page.
              http_get env
                (tr @ HttpGet (bing_api_url self) (header self) (search_params query) #
                      map (\<lambda>d. HttpGet (doc_id d) page_headers []) (take i docs))
                (doc_id (docs ! i)) page_headers [] = Inr page \<and>
              doc_text (docs ! i) = html_to_clean_text env (content page))"
proof -
  from bing_retrieve_ok [OF assms] obtain r sr v n where
    g: "http_get env tr (bing_api_url self) (header self) (search_params query) = Inr r" and
    st: "raise_for_status r = Inr ()" and j: "json r = Inr sr" and
    v: "webPages_value sr = Inr v" and n: "as_int (BingWebSearch.results_requested self) = Inr n" and
    loop: "BingWebSearch_retrieve_loop env sr [0 ..< nat (min (int (length v)) n)] []
             (tr @ [HttpGet (bing_api_url self) (header self) (search_params query)])
           = (tr', Inr docs)"
    by blast
  from bing_loop_docs [OF loop] have
    all2: "list_all2 (\<lambda>i d. hit_member sr i ''url'' = Inr (doc_id d) \<and>
                      hit_member sr i ''name'' = Inr (doc_title d) \<and>
                      doc_score d = 10 - int i) [0 ..< nat (min (int (length v)) n)] docs" and
    tr': "tr' = (tr @ [HttpGet (bing_api_url self) (header self) (search_params query)]) @
                 map (\<lambda>d. HttpGet (doc_id d) page_headers []) docs" and
    pages: "\<forall>k < length docs. \<exists>page.
        http_get env ((tr @ [HttpGet (bing_api_url self) (header self) (search_params query)]) @
                      map (\<lambda>d. HttpGet (doc_id d) page_headers []) (take k docs))
          (doc_id (docs ! k)) page_headers [] = Inr page \<and>
        doc_text (docs ! k) = html_to_clean_text env (content page)"
    by auto
  from all2 have len: "length docs = nat (min (int (length v)) n)"
    by (simp add: list_all2_lengthD [symmetric])
  have fields: "(v ! i) ''url'' = Some (doc_id (docs ! i)) \<and>
                (v ! i) ''name'' = Some (doc_title (docs ! i)) \<and>
                doc_score (docs ! i) = 10 - int i" if "i < length docs" for i
  proof -
    from that len have i: "i < length [0 ..< nat (min (int (length v)) n)]" by simp
    from list_all2_nthD [OF all2 i] that len
    have "hit_member sr i ''url'' = Inr (doc_id (docs ! i))"
         "hit_member sr i ''name'' = Inr (doc_title (docs ! i))"
         "doc_score (docs ! i) = 10 - int i"
      by simp_all
    with hit_member_Inr [OF v] show ?thesis by blast
  qed
  from g st j v n len fields tr' pages show ?thesis
    by (intro exI [of _ r] exI [of _ sr] exI [of _ v] exI [of _ n]) simp
qed

text \<open>
  The documents follow the hits in the order of the response: the ids and titles of the
  returned documents are the \<^verbatim>\<open>url\<close> and \<^verbatim>\<open>name\<close> members of the first hits.
\<close>

lemma bing_retrieve_order:
  assumes "BingWebSearch_retrieve env self query tr = (tr', Inr docs)"
  shows "\<exists>r sr v n.
           http_get env tr (bing_api_url self) (header self) (search_params query) = Inr r \<and>
           json r = Inr sr \<and> webPages_value sr = Inr v \<and>
           as_int (BingWebSearch.results_requested self) = Inr n \<and>
           length docs = nat (min (int (length v)) n) \<and>
           map (\<lambda>h. h ''url'') (take (length docs) v) = map (\<lambda>d. Some (doc_id d)) docs \<and>
           map (\<lambda>h. h ''name'') (take (length docs) v) = map (\<lambda>d. Some (doc_title d)) docs"
proof -
  from bing_retrieve_docs [OF assms] obtain r sr v n where
    g: "http_get env tr (bing_api_url self) (header self) (search_params query) = Inr r" and
    j: "json r = Inr sr" and v: "webPages_value sr = Inr v" and
    n: "as_int (BingWebSearch.results_requested self) = Inr n" and
    len: "length docs = nat (min (int (length v)) n)" and
    fields: "\<forall>i < length docs. (v ! i) ''url'' = Some (doc_id (docs ! i)) \<and>
                               (v ! i) ''name'' = Some (doc_title (docs ! i)) \<and>
                               doc_score (docs ! i) = 10 - int i"
    by blast
  from len have le: "length docs \<le> length v" by simp
  from le fields have "map (\<lambda>h. h ''url'') (take (length docs) v) = map (\<lambda>d. Some (doc_id d)) docs"
    by (simp add: list_eq_iff_nth_eq)
  moreover from le fields
  have "map (\<lambda>h. h ''name'') (take (length docs) v) = map (\<lambda>d. Some (doc_title d)) docs"
    by (simp add: list_eq_iff_nth_eq)
  ultimately show ?thesis using g j v n len by blast
qed

text \<open>No run of \<^verbatim>\<open>retrieve\<close>, whatever its outcome, calls the query generator.\<close>

lemma bing_loop_no_get_query:
  "BingWebSearch_retrieve_loop env sr is results tr = (tr', r) \<Longrightarrow>
   filter is_GetQuery tr' = filter is_GetQuery tr"
proof (induction "is" arbitrary: results tr)
  case Nil
  then show ?case by simp
next
  case (Cons i "is")
  show ?case
  proof (cases "hit_member sr i ''url''")
    case (Inl e)
    with Cons.prems show ?thesis by simp
  next
    case u: (Inr ident)
    show ?thesis
    proof (cases "hit_member sr i ''name''")
      case (Inl e)
      with Cons.prems u show ?thesis by simp
    next
      case n: (Inr title)
      show ?thesis
      proof (cases "hit_member sr i ''snippet''")
        case (Inl e)
        with Cons.prems u n show ?thesis by simp
      next
        case s: (Inr snip)
        show ?thesis
        proof (cases "http_get env tr ident page_headers []")
          case (Inl e)
          with Cons.prems u n s show ?thesis by (auto simp: Let_def)
        next
          case (Inr page)
          with Cons.prems u n s
          have "BingWebSearch_retrieve_loop env sr is
                  (results @ [\<lparr>doc_id = ident, doc_title = title,
                         doc_text = html_to_clean_text env (content page),
                         doc_score = 10 - int i\<rparr>])
                  (tr @ [HttpGet ident page_headers []]) = (tr', r)"
            by (simp add: Let_def)
          from Cons.IH [OF this] show ?thesis by simp
        qed
      qed
    qed
  qed
qed

lemma bing_retrieve_no_get_query:
  assumes "BingWebSearch_retrieve env self query tr = (tr', r)"
  shows "filter is_GetQuery tr' = filter is_GetQuery tr"
proof -
  have "tr' = tr @ [HttpGet (bing_api_url self) (header self) (search_params query)] \<or>
        (\<exists>sr is. BingWebSearch_retrieve_loop env sr is []
           (tr @ [HttpGet (bing_api_url self) (header self) (search_params query)]) = (tr', r))"
    using assms by (auto simp: BingWebSearch_retrieve_def split: sum.splits)
  then show ?thesis
  proof
    assume "tr' = tr @ [HttpGet (bing_api_url self) (header self) (search_params query)]"
    then show ?thesis by simp
  next
    assume "\<exists>sr is. BingWebSearch_retrieve_loop env sr is []
           (tr @ [HttpGet (bing_api_url self) (header self) (search_params query)]) = (tr', r)"
    then obtain sr "is" where "BingWebSearch_retrieve_loop env sr is []
           (tr @ [HttpGet (bing_api_url self) (header self) (search_params query)]) = (tr', r)"
      by blast
    from bing_loop_no_get_query [OF this] show ?thesis by simp
  qed
qed

text \<open>The markup-free snippet is computed and dropped: no run depends on it.\<close>

lemma bing_loop_stripped_strings:
  "BingWebSearch_retrieve_loop (env\<lparr>stripped_strings := f\<rparr>) sr is results tr =
   BingWebSearch_retrieve_loop env sr is results tr"
  by (induction "is" arbitrary: results tr) (simp_all add: Let_def split: sum.splits)

lemma bing_retrieve_stripped_strings:
  "BingWebSearch_retrieve (env\<lparr>stripped_strings := f\<rparr>) self query tr =
   BingWebSearch_retrieve env self query tr"
  by (simp add: BingWebSearch_retrieve_def bing_loop_stripped_strings split: sum.splits)

subsection \<open>The run of the example\<close>

lemma example_bing_retrieve:
  "BingWebSearch_retrieve example_env example_bing ''climate policy'' [] =
     (example_trace, Inr example_docs)"
  by (simp add: BingWebSearch_retrieve_def example_env_def example_bing_def search_params_def
        raise_for_status_def example_search_results_def webPages_value_def hit_member_def
        example_hit_def upt_rec example_trace_def example_docs_def)

subsection \<open>Scores\<close>

text \<open>
  Claim C1, as the code has it. The document at zero-based rank \<open>i\<close> of a successful
  \<^verbatim>\<open>retrieve\<close> of the web back end has the score \<open>10 - i\<close>: the constant is ten, whatever
  \<^verbatim>\<open>results_requested\<close> is. The scores are therefore strictly decreasing with the rank.
\<close>

theorem BingWebSearch_retrieve_score:
  assumes "BingWebSearch_retrieve env self query tr = (tr', Inr docs)"
  shows "(\<forall>i < length docs. doc_score (docs ! i) = 10 - int i) \<and>
         (\<forall>i j. i < j \<and> j < length docs \<longrightarrow> doc_score (docs ! j) < doc_score (docs ! i))"
proof -
  from bing_retrieve_docs [OF assms]
  have score: "\<forall>i < length docs. doc_score (docs ! i) = 10 - int i" by blast
  then have "doc_score (docs ! j) < doc_score (docs ! i)" if "i < j \<and> j < length docs" for i j
    using that by simp
  with score show ?thesis by blast
qed

theorem BingWebSearch_retrieve_score_witness:
  "BingWebSearch_retrieve example_env example_bing ''climate policy'' [] =
     (example_trace, Inr example_docs) \<and>
   doc_score (example_docs ! 0) = 10 - int 0 \<and>
   doc_score (example_docs ! 2) = 10 - int 2 \<and>
   doc_score (example_docs ! 2) < doc_score (example_docs ! 1)"
proof -
  have len: "length example_docs = 3"
    by (simp add: example_docs_def)
  from BingWebSearch_retrieve_score [OF example_bing_retrieve]
  have "\<forall>i < 3. doc_score (example_docs ! i) = 10 - int i"
    and "\<forall>i j. i < j \<and> j < 3 \<longrightarrow> doc_score (example_docs ! j) < doc_score (example_docs ! i)"
    unfolding len by blast+
  then have "doc_score (example_docs ! 0) = 10 - int 0"
    and "doc_score (example_docs ! 2) = 10 - int 2"
    and "doc_score (example_docs ! 2) < doc_score (example_docs ! 1)"
    by simp_all
  with example_bing_retrieve show ?thesis by blast
qed

text \<open>
  Claim C1 as stated gives rank \<open>i\<close> the score \<open>N - i\<close> for the configured count \<open>N\<close>.
  With three results requested and five hits, the three documents have the scores
  10, 9 and 8, and not 3, 2 and 1.
\<close>

theorem BingWebSearch_retrieve_score_counterexample:
  "BingWebSearch_retrieve example_env example_bing ''climate policy'' [] =
     (example_trace, Inr example_docs) \<and>
   BingWebSearch.results_requested example_bing = PInt 3 \<and>
   map doc_score example_docs = [10, 9, 8] \<and>
   doc_score (example_docs ! 0) \<noteq> 3 - 0"
  using example_bing_retrieve by (simp add: example_bing_def example_docs_def)

subsection \<open>A search call that fails\<close>

text \<open>
  Claim C5. When the search API answers with an error status (a 4xx or 5xx code),
  \<^verbatim>\<open>retrieve\<close> raises the HTTP error: it returns no documents, and the search call is the
  only HTTP request it has made, so no page is fetched.
\<close>

theorem BingWebSearch_retrieve_http_error:
  assumes "http_get env tr (bing_api_url self) (header self) (search_params query) = Inr r"
    and "400 \<le> status_code r" and "status_code r < 600"
  shows "BingWebSearch_retrieve env self query tr =
           (tr @ [HttpGet (bing_api_url self) (header self) (search_params query)],
            Inl (HTTPError (status_code r)))"
  using assms by (simp add: BingWebSearch_retrieve_def raise_for_status_def)

theorem BingWebSearch_retrieve_http_error_witness:
  "BingWebSearch_retrieve example_env_unavailable example_bing ''climate policy'' [] =
     ([HttpGet ''https://api.cognitive.microsoft.com/bing/v7.0/search''
         [(''Ocp-Apim-Subscription-Key'', PStr ''key'')]
         [(''q'', PStr ''climate policy''), (''textDecorations'', PBool True),
          (''textFormat'', PStr ''HTML'')]],
      Inl (HTTPError 503))"
  using BingWebSearch_retrieve_http_error
    [of example_env_unavailable "[]" example_bing "''climate policy''"
        "\<lparr>status_code = 503, content = [], json = Inl (Raised ''JSONDecodeError'')\<rparr>"]
  by (simp add: example_env_unavailable_def example_env_def example_bing_def search_params_def)

subsection \<open>Outbound requests\<close>

text \<open>
  Claim C8. A \<^verbatim>\<open>retrieve\<close> of the web back end that returns \<open>k\<close> documents has made
  \<open>1 + k\<close> calls, all of them HTTP requests: the search call, then one page fetch per
  returned document, in the order of the documents.
\<close>

theorem BingWebSearch_retrieve_requests:
  assumes "BingWebSearch_retrieve env self query tr = (tr', Inr docs)"
  shows "tr' = tr @ HttpGet (bing_api_url self) (header self) (search_params query) #
                    map (\<lambda>d. HttpGet (doc_id d) page_headers []) docs \<and>
         length tr' = length tr + (1 + length docs)"
proof -
  from bing_retrieve_docs [OF assms]
  have "tr' = tr @ HttpGet (bing_api_url self) (header self) (search_params query) #
                    map (\<lambda>d. HttpGet (doc_id d) page_headers []) docs"
    by blast
  then show ?thesis by simp
qed

theorem BingWebSearch_retrieve_requests_witness:
  "BingWebSearch_retrieve example_env example_bing ''climate policy'' [] =
     (example_trace, Inr example_docs) \<and>
   length example_docs = 3 \<and> length example_trace = 0 + (1 + 3)"
  using example_bing_retrieve BingWebSearch_retrieve_requests [OF example_bing_retrieve]
  by (simp add: example_docs_def)

subsection \<open>Lookup by id\<close>

text \<open>
  Claim C10. \<^verbatim>\<open>get_doc_from_index\<close> of the web back end returns a list of one document
  whose id, title and text are the given id and whose score is \<open>-1\<close>, and makes no call:
  the trace is unchanged.
\<close>

theorem BingWebSearch_get_doc_from_index_placeholder:
  "BingWebSearch_get_doc_from_index self d tr =
     (tr, Inr [\<lparr>doc_id = d, doc_title = d, doc_text = d, doc_score = - 1\<rparr>])"
  by (simp add: BingWebSearch_get_doc_from_index_def)

section \<open>Properties of the index back end\<close>

subsection \<open>The loop and the runs of \<^verbatim>\<open>retrieve\<close>\<close>

text \<open>
  Every operation only appends to the trace. A run of the loop that returns has appended
  one document per ranked pair, in the order of the pairs, with the pair's id (rendered)
  and score.
\<close>

lemma indri_get_doc_trace:
  "Indri_get_doc_from_index env self d tr = (tr', r) \<Longrightarrow> \<exists>evs. tr' = tr @ evs"
  by (auto simp: Indri_get_doc_from_index_def split: sum.splits option.splits if_splits)

lemma indri_loop_trace:
  "Indri_retrieve_loop env self rs results tr = (tr', r) \<Longrightarrow> \<exists>evs. tr' = tr @ evs"
proof (induction rs arbitrary: results tr)
  case Nil
  then show ?case by simp
next
  case (Cons p rs)
  obtain i s where p: "p = (i, s)" by (cases p)
  obtain t1 r1 where g: "Indri_get_doc_from_index env self i tr = (t1, r1)"
    by (cases "Indri_get_doc_from_index env self i tr")
  from indri_get_doc_trace [OF g] obtain e1 where t1: "t1 = tr @ e1" by blast
  show ?case
  proof (cases r1)
    case (Inl e)
    with Cons.prems p g t1 show ?thesis by auto
  next
    case (Inr ds)
    show ?thesis
    proof (cases ds)
      case Nil
      with Cons.prems p g t1 Inr show ?thesis by auto
    next
      case (Cons doc rest)
      with Cons.prems p g Inr
      have "Indri_retrieve_loop env self rs
              (results @ [doc\<lparr>doc_score := s, doc_id := str_int i\<rparr>]) t1 = (tr', r)"
        by simp
      from Cons.IH [OF this] t1 show ?thesis by auto
    qed
  qed
qed

lemma indri_loop_docs:
  "Indri_retrieve_loop env self rs results tr = (tr', Inr docs) \<Longrightarrow>
   \<exists>new. docs = results @ new \<and>
     list_all2 (\<lambda>p d. doc_id d = str_int (fst p) \<and> doc_score d = snd p) rs new"
proof (induction rs arbitrary: results tr)
  case Nil
  then show ?case by simp
next
  case (Cons p rs)
  obtain i s where p: "p = (i, s)" by (cases p)
  from Cons.prems p obtain t1 doc rest where
    rec: "Indri_retrieve_loop env self rs
            (results @ [doc\<lparr>doc_score := s, doc_id := str_int i\<rparr>]) t1 = (tr', Inr docs)"
    by (auto split: prod.splits sum.splits list.splits)
  from Cons.IH [OF rec] obtain new where
    "docs = (results @ [doc\<lparr>doc_score := s, doc_id := str_int i\<rparr>]) @ new"
    "list_all2 (\<lambda>p d. doc_id d = str_int (fst p) \<and> doc_score d = snd p) rs new"
    by blast
  with p show ?case
    by (intro exI [of _ "doc\<lparr>doc_score := s, doc_id := str_int i\<rparr> # new"]) simp
qed

lemma indri_retrieve_docs:
  assumes "Indri_retrieve env self query tr = (tr', Inr docs)"
  shows "\<exists>rs. index_query env tr query (Indri.results_requested self) = Inr rs \<and>
           length docs = length rs \<and>
           (\<forall>k < length rs. doc_id (docs ! k) = str_int (fst (rs ! k)) \<and>
                             doc_score (docs ! k) = snd (rs ! k))"
proof -
  from assms obtain rs where
    q: "index_query env tr query (Indri.results_requested self) = Inr rs" and
    loop: "Indri_retrieve_loop env self rs []
             (tr @ [IndexQuery query (Indri.results_requested self)]) = (tr', Inr docs)"
    by (auto simp: Indri_retrieve_def split: sum.splits)
  from indri_loop_docs [OF loop]
  have all2: "list_all2 (\<lambda>p d. doc_id d = str_int (fst p) \<and> doc_score d = snd p) rs docs"
    by simp
  then have "length docs = length rs"
    by (simp add: list_all2_lengthD)
  moreover from all2 have "\<forall>k < length rs. doc_id (docs ! k) = str_int (fst (rs ! k)) \<and>
                             doc_score (docs ! k) = snd (rs ! k)"
    by (simp add: list_all2_conv_all_nth)
  ultimately show ?thesis using q by blast
qed

lemma indri_retrieve_trace:
  "Indri_retrieve env self query tr = (tr', r) \<Longrightarrow>
   \<exists>evs. tr' = tr @ IndexQuery query (Indri.results_requested self) # evs"
proof (cases "index_query env tr query (Indri.results_requested self)")
  case (Inl e)
  assume "Indri_retrieve env self query tr = (tr', r)"
  with Inl show ?thesis by (auto simp: Indri_retrieve_def)
next
  case (Inr rs)
  assume "Indri_retrieve env self query tr = (tr', r)"
  with Inr have "Indri_retrieve_loop env self rs []
             (tr @ [IndexQuery query (Indri.results_requested self)]) = (tr', r)"
    by (simp add: Indri_retrieve_def)
  from indri_loop_trace [OF this] show ?thesis by auto
qed

text \<open>No run of \<^verbatim>\<open>retrieve\<close>, whatever its outcome, calls the query generator.\<close>

lemma indri_get_doc_no_get_query:
  "Indri_get_doc_from_index env self d tr = (tr', r) \<Longrightarrow>
   filter is_GetQuery tr' = filter is_GetQuery tr"
  by (auto simp: Indri_get_doc_from_index_def split: sum.splits option.splits if_splits)

lemma indri_loop_no_get_query:
  "Indri_retrieve_loop env self rs results tr = (tr', r) \<Longrightarrow>
   filter is_GetQuery tr' = filter is_GetQuery tr"
proof (induction rs arbitrary: results tr)
  case Nil
  then show ?case by simp
next
  case (Cons p rs)
  obtain i s where p: "p = (i, s)" by (cases p)
  obtain t1 r1 where g: "Indri_get_doc_from_index env self i tr = (t1, r1)"
    by (cases "Indri_get_doc_from_index env self i tr")
  note t1 = indri_get_doc_no_get_query [OF g]
  show ?case
  proof (cases r1)
    case (Inl e)
    with Cons.prems p g t1 show ?thesis by auto
  next
    case (Inr ds)
    show ?thesis
    proof (cases ds)
      case Nil
      with Cons.prems p g t1 Inr show ?thesis by auto
    next
      case (Cons doc rest)
      with Cons.prems p g Inr
      have "Indri_retrieve_loop env self rs
              (results @ [doc\<lparr>doc_score := s, doc_id := str_int i\<rparr>]) t1 = (tr', r)"
        by simp
      from Cons.IH [OF this] t1 show ?thesis by simp
    qed
  qed
qed

lemma indri_retrieve_no_get_query:
  assumes "Indri_retrieve env self query tr = (tr', r)"
  shows "filter is_GetQuery tr' = filter is_GetQuery tr"
proof (cases "index_query env tr query (Indri.results_requested self)")
  case (Inl e)
  with assms show ?thesis by (auto simp: Indri_retrieve_def)
next
  case (Inr rs)
  with assms have "Indri_retrieve_loop env self rs []
             (tr @ [IndexQuery query (Indri.results_requested self)]) = (tr', r)"
    by (simp add: Indri_retrieve_def)
  from indri_loop_no_get_query [OF this] show ?thesis by simp
qed

subsection \<open>The run of the example\<close>

lemma example_indri_retrieve:
  "Indri_retrieve example_env example_indri ''climate policy'' [] =
     (example_indri_trace, Inr example_indri_docs)"
  by (simp add: Indri_retrieve_def Indri_get_doc_from_index_def example_env_def
        example_indri_def example_params_def str_int_def example_indri_trace_def
        example_indri_docs_def)

subsection \<open>Ranked pairs become documents\<close>

text \<open>
  Claim C6. A \<^verbatim>\<open>retrieve\<close> of the index back end that returns has one document per
  ranked pair of the engine's answer, in the engine's order; the document's id is the
  internal id rendered as a string and its score is the engine's score.
\<close>

theorem Indri_retrieve_ranked:
  assumes "Indri_retrieve env self query tr = (tr', Inr docs)"
  shows "\<exists>rs. index_query env tr query (Indri.results_requested self) = Inr rs \<and>
           map (\<lambda>d. (doc_id d, doc_score d)) docs = map (\<lambda>p. (str_int (fst p), snd p)) rs"
proof -
  from indri_retrieve_docs [OF assms] obtain rs where
    q: "index_query env tr query (Indri.results_requested self) = Inr rs" and
    len: "length docs = length rs" and
    each: "\<forall>k < length rs. doc_id (docs ! k) = str_int (fst (rs ! k)) \<and>
                             doc_score (docs ! k) = snd (rs ! k)"
    by blast
  from len each
  have "map (\<lambda>d. (doc_id d, doc_score d)) docs = map (\<lambda>p. (str_int (fst p), snd p)) rs"
    by (simp add: list_eq_iff_nth_eq)
  with q show ?thesis by blast
qed

theorem Indri_retrieve_ranked_witness:
  "Indri_retrieve example_env example_indri ''climate policy'' [] =
     (example_indri_trace, Inr example_indri_docs) \<and>
   map (\<lambda>d. (doc_id d, doc_score d)) example_indri_docs = [(''7'', - 3), (''12'', - 5)]"
proof -
  from Indri_retrieve_ranked [OF example_indri_retrieve] obtain rs where
    "index_query example_env [] ''climate policy'' (Indri.results_requested example_indri) = Inr rs"
    and m: "map (\<lambda>d. (doc_id d, doc_score d)) example_indri_docs =
            map (\<lambda>p. (str_int (fst p), snd p)) rs"
    by blast
  then have "rs = [(7, - 3), (12, - 5)]"
    by (simp add: example_env_def)
  with m have "map (\<lambda>d. (doc_id d, doc_score d)) example_indri_docs = [(''7'', - 3), (''12'', - 5)]"
    by (simp add: str_int_def)
  with example_indri_retrieve show ?thesis by blast
qed

subsection \<open>An unsupported text format\<close>

text \<open>
  Claim C2, as the code has it. When \<^verbatim>\<open>text_format\<close> is configured and is not
  \<^verbatim>\<open>'trectext'\<close>, \<^verbatim>\<open>get_doc_from_index\<close> runs the dump utility first and, once that has
  returned, raises the unsupported-format error: the process has been invoked once when
  the failure is raised. \<^verbatim>\<open>retrieve\<close> fails in the same way at the first ranked pair,
  after the query and one run of the dump utility, and returns no documents.
\<close>

theorem Indri_unsupported_text_format:
  assumes "params self ''text_format'' = Some tf" and "tf \<noteq> PStr ''trectext''"
    and "os_path_join (indri_path self) ''dumpindex/dumpindex'' = Inr exe"
    and "params self ''index'' = Some ix"
  shows "(\<forall>c. run_stdout env tr [PStr exe, ix, PStr ''dt'', PStr (str_int d)] = Inr c \<longrightarrow>
            Indri_get_doc_from_index env self d tr =
              (tr @ [ProcessRun [PStr exe, ix, PStr ''dt'', PStr (str_int d)]],
               Inl UnsupportedFormat)) \<and>
         (\<forall>query s rest c.
            index_query env tr query (Indri.results_requested self) = Inr ((d, s) # rest) \<and>
            run_stdout env (tr @ [IndexQuery query (Indri.results_requested self)])
              [PStr exe, ix, PStr ''dt'', PStr (str_int d)] = Inr c \<longrightarrow>
            Indri_retrieve env self query tr =
              (tr @ [IndexQuery query (Indri.results_requested self),
                     ProcessRun [PStr exe, ix, PStr ''dt'', PStr (str_int d)]],
               Inl UnsupportedFormat))"
proof -
  have one: "Indri_get_doc_from_index env self d t =
              (t @ [ProcessRun [PStr exe, ix, PStr ''dt'', PStr (str_int d)]],
               Inl UnsupportedFormat)"
    if "run_stdout env t [PStr exe, ix, PStr ''dt'', PStr (str_int d)] = Inr c" for t c
    using assms that by (simp add: Indri_get_doc_from_index_def)
  have "Indri_retrieve env self query tr =
              (tr @ [IndexQuery query (Indri.results_requested self),
                     ProcessRun [PStr exe, ix, PStr ''dt'', PStr (str_int d)]],
               Inl UnsupportedFormat)"
    if "index_query env tr query (Indri.results_requested self) = Inr ((d, s) # rest)"
      and "run_stdout env (tr @ [IndexQuery query (Indri.results_requested self)])
              [PStr exe, ix, PStr ''dt'', PStr (str_int d)] = Inr c"
    for query s rest c
    using that one [OF that(2)] by (simp add: Indri_retrieve_def)
  with one show ?thesis by blast
qed

theorem Indri_unsupported_text_format_witness:
  "Indri_get_doc_from_index example_env example_indri_html 12 [] =
     ([ProcessRun [PStr ''/opt/indri/dumpindex/dumpindex'', PStr ''/data/index'', PStr ''dt'',
                   PStr ''12'']],
      Inl UnsupportedFormat) \<and>
   Indri_retrieve example_env example_indri_html ''climate policy'' [] =
     ([IndexQuery ''climate policy'' (PInt 3),
       ProcessRun [PStr ''/opt/indri/dumpindex/dumpindex'', PStr ''/data/index'', PStr ''dt'',
                   PStr ''7'']],
      Inl UnsupportedFormat)"
proof -
  have tf: "params example_indri_html ''text_format'' = Some (PStr ''html'')"
    by (simp add: example_indri_html_def example_params_html_def)
  have ne: "PStr ''html'' \<noteq> PStr ''trectext''" by simp
  have exe: "os_path_join (indri_path example_indri_html) ''dumpindex/dumpindex'' =
               Inr ''/opt/indri/dumpindex/dumpindex''"
    by (simp add: example_indri_html_def example_indri_def)
  have ix: "params example_indri_html ''index'' = Some (PStr ''/data/index'')"
    by (simp add: example_indri_html_def example_params_html_def example_params_def)
  have rr: "Indri.results_requested example_indri_html = PInt 3"
    by (simp add: example_indri_html_def example_indri_def)
  have run: "run_stdout example_env t argv = Inr ''<DOC>''" for t argv
    by (simp add: example_env_def)
  have q: "index_query example_env [] ''climate policy'' (PInt 3) = Inr ((7, - 3) # [(12, - 5)])"
    by (simp add: example_env_def)
  note a = Indri_unsupported_text_format [OF tf ne exe ix, of example_env "[]" 12]
  note b = Indri_unsupported_text_format [OF tf ne exe ix, of example_env "[]" 7]
  from a [THEN conjunct1, rule_format, OF run]
  have 1: "Indri_get_doc_from_index example_env example_indri_html 12 [] =
     ([ProcessRun [PStr ''/opt/indri/dumpindex/dumpindex'', PStr ''/data/index'', PStr ''dt'',
                   PStr ''12'']],
      Inl UnsupportedFormat)"
    by (simp add: str_int_def)
  from b [THEN conjunct2, rule_format, of "''climate policy''" "- 3" "[(12, - 5)]" "''<DOC>''"]
    q run rr
  have 2: "Indri_retrieve example_env example_indri_html ''climate policy'' [] =
     ([IndexQuery ''climate policy'' (PInt 3),
       ProcessRun [PStr ''/opt/indri/dumpindex/dumpindex'', PStr ''/data/index'', PStr ''dt'',
                   PStr ''7'']],
      Inl UnsupportedFormat)"
    by (simp add: str_int_def)
  from 1 2 show ?thesis by (rule conjI)
qed

text \<open>
  Claim C2 as stated has the failure raised without the dump process being invoked.
  With \<^verbatim>\<open>text_format = 'html'\<close> the lookup of document 7 raises the error, and the trace
  it leaves holds the run of the dump utility.
\<close>

theorem Indri_unsupported_text_format_counterexample:
  "params example_indri_html ''text_format'' = Some (PStr ''html'') \<and>
   Indri_get_doc_from_index example_env example_indri_html 7 [] =
     ([ProcessRun [PStr ''/opt/indri/dumpindex/dumpindex'', PStr ''/data/index'', PStr ''dt'',
                   PStr ''7'']],
      Inl UnsupportedFormat) \<and>
   fst (Indri_get_doc_from_index example_env example_indri_html 7 []) \<noteq> []"
  by (simp add: Indri_get_doc_from_index_def example_indri_html_def example_indri_def
        example_params_html_def example_params_def example_env_def str_int_def)

section \<open>Properties of both back ends\<close>

subsection \<open>How many documents\<close>




subsection \<open>What a web document holds\<close>

text \<open>
  Claim C7. Each document the web back end returns has the hit's \<^verbatim>\<open>url\<close> as id and the
  hit's \<^verbatim>\<open>name\<close> as title, and its text is the cleaned body of the page that the
  second GET, to that URL, returned. The snippet is stripped of its markup and then
  dropped: whatever the stripping gives, the run is the same.
\<close>

theorem BingWebSearch_retrieve_fields:
  assumes "BingWebSearch_retrieve env self query tr = (tr', Inr docs)"
  shows "(\<exists>r sr v.
            http_get env tr (bing_api_url self) (header self) (search_params query) = Inr r \<and>
            json r = Inr sr \<and> webPages_value sr = Inr v \<and>
            map (\<lambda>h. h ''url'') (take (length docs) v) = map (\<lambda>d. Some (doc_id d)) docs \<and>
            map (\<lambda>h. h ''name'') (take (length docs) v) = map (\<lambda>d. Some (doc_title d)) docs) \<and>
         (\<forall>i < length docs. \<exists>page.
            http_get env
              (tr @ HttpGet (bing_api_url self) (header self) (search_params query) #
                    map (\<lambda>d. HttpGet (doc_id d) page_headers []) (take i docs))
              (doc_id (docs ! i)) page_headers [] = Inr page \<and>
            doc_text (docs ! i) = html_to_clean_text env (content page)) \<and>
         (\<forall>f. BingWebSearch_retrieve (env\<lparr>stripped_strings := f\<rparr>) self query tr =
                (tr', Inr docs))"
proof (intro conjI)
  from bing_retrieve_order [OF assms]
  show "\<exists>r sr v.
            http_get env tr (bing_api_url self) (header self) (search_params query) = Inr r \<and>
            json r = Inr sr \<and> webPages_value sr = Inr v \<and>
            map (\<lambda>h. h ''url'') (take (length docs) v) = map (\<lambda>d. Some (doc_id d)) docs \<and>
            map (\<lambda>h. h ''name'') (take (length docs) v) = map (\<lambda>d. Some (doc_title d)) docs"
    by blast
next
  from bing_retrieve_docs [OF assms]
  show "\<forall>i < length docs. \<exists>page.
            http_get env
              (tr @ HttpGet (bing_api_url self) (header self) (search_params query) #
                    map (\<lambda>d. HttpGet (doc_id d) page_headers []) (take i docs))
              (doc_id (docs ! i)) page_headers [] = Inr page \<and>
            doc_text (docs ! i) = html_to_clean_text env (content page)"
    by blast
next
  from assms
  show "\<forall>f. BingWebSearch_retrieve (env\<lparr>stripped_strings := f\<rparr>) self query tr = (tr', Inr docs)"
    by (simp add: bing_retrieve_stripped_strings)
qed

theorem BingWebSearch_retrieve_fields_witness:
  "BingWebSearch_retrieve example_env example_bing ''climate policy'' [] =
     (example_trace, Inr example_docs) \<and>
   map doc_id example_docs = [''http://a'', ''http://b'', ''http://c''] \<and>
   map doc_title example_docs = [''Page a'', ''Page b'', ''Page c''] \<and>
   doc_text (example_docs ! 1) = html_to_clean_text example_env ''<p>http://b'' \<and>
   BingWebSearch_retrieve (example_env\<lparr>stripped_strings := (\<lambda>s. [])\<rparr>) example_bing
     ''climate policy'' [] = (example_trace, Inr example_docs)"
proof -
  note f = BingWebSearch_retrieve_fields [OF example_bing_retrieve]
  have l3: "length example_docs = 3" by (simp add: example_docs_def)
  from f [THEN conjunct1] obtain r sr v where
    g: "http_get example_env [] (bing_api_url example_bing) (header example_bing)
          (search_params ''climate policy'') = Inr r" and
    j: "json r = Inr sr" and v: "webPages_value sr = Inr v" and
    u: "map (\<lambda>h. h ''url'') (take (length example_docs) v) = map (\<lambda>d. Some (doc_id d)) example_docs" and
    t: "map (\<lambda>h. h ''name'') (take (length example_docs) v) = map (\<lambda>d. Some (doc_title d)) example_docs"
    by blast
  from g have r: "r = \<lparr>status_code = 200, content = [], json = Inr example_search_results\<rparr>"
    by (simp add: example_env_def example_bing_def)
  with j have sr: "sr = example_search_results" by simp
  with v have v': "v = [example_hit ''a'', example_hit ''b'', example_hit ''c'',
                        example_hit ''d'', example_hit ''e'']"
    by (simp add: webPages_value_def example_search_results_def)
  from u v' l3 have "map (\<lambda>d. Some (doc_id d)) example_docs =
                      [Some ''http://a'', Some ''http://b'', Some ''http://c'']"
    by (simp add: example_hit_def)
  then have "map (the \<circ> (\<lambda>d. Some (doc_id d))) example_docs =
             map the [Some ''http://a'', Some ''http://b'', Some ''http://c'']"
    by (simp only: map_map [symmetric])
  then have ids: "map doc_id example_docs = [''http://a'', ''http://b'', ''http://c'']"
    by (simp add: comp_def)
  from t v' l3 have "map (\<lambda>d. Some (doc_title d)) example_docs =
                      [Some ''Page a'', Some ''Page b'', Some ''Page c'']"
    by (simp add: example_hit_def)
  then have "map (the \<circ> (\<lambda>d. Some (doc_title d))) example_docs =
             map the [Some ''Page a'', Some ''Page b'', Some ''Page c'']"
    by (simp only: map_map [symmetric])
  then have titles: "map doc_title example_docs = [''Page a'', ''Page b'', ''Page c'']"
    by (simp add: comp_def)
  have one: "1 < length example_docs" using l3 by simp
  have "doc_id (example_docs ! 1) = map doc_id example_docs ! 1"
    using one by simp
  with ids have id1: "doc_id (example_docs ! 1) = ''http://b''" by simp
  from f [THEN conjunct2, THEN conjunct1, rule_format, OF one] obtain page where
    p: "http_get example_env
       ([] @ HttpGet (bing_api_url example_bing) (header example_bing)
               (search_params ''climate policy'') #
             map (\<lambda>d. HttpGet (doc_id d) page_headers []) (take 1 example_docs))
       (doc_id (example_docs ! 1)) page_headers [] = Inr page"
    and tx: "doc_text (example_docs ! 1) = html_to_clean_text example_env (content page)"
    by blast
  from p id1 have "content page = ''<p>http://b''"
    by (auto simp: example_env_def)
  with tx have text1: "doc_text (example_docs ! 1) = html_to_clean_text example_env ''<p>http://b''"
    by simp
  note f [THEN conjunct2, THEN conjunct2, rule_format, of "\<lambda>s. []"]
  with example_bing_retrieve ids titles text1 show ?thesis by (intro conjI)
qed

subsection \<open>The template method\<close>

text \<open>
  Claim C3. For every conversation list, \<^verbatim>\<open>get_results\<close> of a retriever that holds its
  two capabilities calls the query generator exactly once (the back end's \<^verbatim>\<open>retrieve\<close>
  never calls it); when the generator returns a query, the query is logged at info level
  and only then is \<^verbatim>\<open>retrieve\<close> run on it, and what \<^verbatim>\<open>get_results\<close> returns is what that
  run of \<^verbatim>\<open>retrieve\<close> returns. When the generator fails, its error comes out and nothing
  else has been called.
\<close>

theorem get_results_template:
  assumes "query_generation self = PQueryGeneration"
    and "params self ''logger'' = Some PLogger"
    and "\<And>query t. filter is_GetQuery (fst (retrieve query t)) = filter is_GetQuery t"
  shows "filter is_GetQuery (fst (get_results env retrieve self conv_list tr)) =
           filter is_GetQuery tr @ [GetQuery conv_list] \<and>
         (\<forall>query. get_query env tr conv_list = Inr query \<longrightarrow>
            get_results env retrieve self conv_list tr =
              retrieve query (tr @ [GetQuery conv_list, LogInfo (''New query: '' @ query)])) \<and>
         (\<forall>e. get_query env tr conv_list = Inl e \<longrightarrow>
            get_results env retrieve self conv_list tr = (tr @ [GetQuery conv_list], Inl e))"
proof (cases "get_query env tr conv_list")
  case (Inl e)
  with assms(1,2) show ?thesis by (simp add: get_results_def)
next
  case (Inr query)
  with assms(1,2)
  have eq: "get_results env retrieve self conv_list tr =
              retrieve query (tr @ [GetQuery conv_list, LogInfo (''New query: '' @ query)])"
    by (simp add: get_results_def)
  from assms(3) [of query "tr @ [GetQuery conv_list, LogInfo (''New query: '' @ query)]"]
  have "filter is_GetQuery (fst (get_results env retrieve self conv_list tr)) =
           filter is_GetQuery tr @ [GetQuery conv_list]"
    by (simp add: eq)
  with eq Inr show ?thesis by simp
qed

theorem get_results_template_witness:
  "get_results example_env (BingWebSearch_retrieve example_env example_bing) example_bing
     [''What is the climate policy?''] [] =
   BingWebSearch_retrieve example_env example_bing ''climate policy''
     [GetQuery [''What is the climate policy?''], LogInfo ''New query: climate policy''] \<and>
   filter is_GetQuery
     (fst (get_results example_env (BingWebSearch_retrieve example_env example_bing)
             example_bing [''What is the climate policy?''] [])) =
   [GetQuery [''What is the climate policy?'']] \<and>
   get_results example_env (Indri_retrieve example_env example_indri) example_indri
     [''What is the climate policy?''] [] =
   Indri_retrieve example_env example_indri ''climate policy''
     [GetQuery [''What is the climate policy?''], LogInfo ''New query: climate policy'']"
proof -
  have qg: "query_generation example_bing = PQueryGeneration"
    by (simp add: example_bing_def)
  have lg: "params example_bing ''logger'' = Some PLogger"
    by (simp add: example_bing_def example_params_def)
  have none: "filter is_GetQuery (fst (BingWebSearch_retrieve example_env example_bing query t)) =
              filter is_GetQuery t" for query t
    by (rule bing_retrieve_no_get_query [of example_env example_bing query t _
              "snd (BingWebSearch_retrieve example_env example_bing query t)"]) simp
  have q: "get_query example_env [] [''What is the climate policy?''] = Inr ''climate policy''"
    by (simp add: example_env_def)
  note b = get_results_template [of example_bing "BingWebSearch_retrieve example_env example_bing"
             example_env "[''What is the climate policy?'']" "[]", OF qg lg none]
  have qg': "query_generation example_indri = PQueryGeneration"
    by (simp add: example_indri_def)
  have lg': "params example_indri ''logger'' = Some PLogger"
    by (simp add: example_indri_def example_params_def)
  have none': "filter is_GetQuery (fst (Indri_retrieve example_env example_indri query t)) =
              filter is_GetQuery t" for query t
    by (rule indri_retrieve_no_get_query [of example_env example_indri query t _
              "snd (Indri_retrieve example_env example_indri query t)"]) simp
  note i = get_results_template [of example_indri "Indri_retrieve example_env example_indri"
             example_env "[''What is the climate policy?'']" "[]", OF qg' lg' none']
  from b [THEN conjunct2, THEN conjunct1, rule_format, OF q]
  have 1: "get_results example_env (BingWebSearch_retrieve example_env example_bing) example_bing
     [''What is the climate policy?''] [] =
   BingWebSearch_retrieve example_env example_bing ''climate policy''
     [GetQuery [''What is the climate policy?''], LogInfo ''New query: climate policy'']"
    by simp
  from b [THEN conjunct1]
  have 2: "filter is_GetQuery
     (fst (get_results example_env (BingWebSearch_retrieve example_env example_bing)
             example_bing [''What is the climate policy?''] [])) =
   [GetQuery [''What is the climate policy?'']]"
    by simp
  from i [THEN conjunct2, THEN conjunct1, rule_format, OF q]
  have 3: "get_results example_env (Indri_retrieve example_env example_indri) example_indri
     [''What is the climate policy?''] [] =
   Indri_retrieve example_env example_indri ''climate policy''
     [GetQuery [''What is the climate policy?''], LogInfo ''New query: climate policy'']"
    by simp
  from 1 2 3 show ?thesis by (intro conjI)
qed

subsection \<open>The default result count\<close>

text \<open>
  Claim C9. Both constructors set \<^verbatim>\<open>results_requested\<close> to the value of the
  configuration's key of that name when the key is present and to 1 when it is absent.
  With the key absent the web back end then returns at most one document, and the index
  back end asks the engine for one result.
\<close>

theorem results_requested_default:
  "(Indri_init env ps tr = (tr', Inr ix) \<longrightarrow>
      Indri.results_requested ix =
        (case ps ''results_requested'' of None \<Rightarrow> PInt 1 | Some v \<Rightarrow> v)) \<and>
   (BingWebSearch_init ps tr2 = (tr2', Inr b) \<longrightarrow>
      BingWebSearch.results_requested b =
        (case ps ''results_requested'' of None \<Rightarrow> PInt 1 | Some v \<Rightarrow> v)) \<and>
   (ps ''results_requested'' = None \<and> BingWebSearch_init ps tr2 = (tr2', Inr b) \<and>
    BingWebSearch_retrieve env b query t = (t', Inr docs) \<longrightarrow> length docs \<le> 1) \<and>
   (ps ''results_requested'' = None \<and> Indri_init env ps tr = (tr', Inr ix) \<and>
    Indri_retrieve env ix query t2 = (t2', r) \<longrightarrow>
      (\<exists>evs. t2' = t2 @ IndexQuery query (PInt 1) # evs))"
proof -
  have i: "Indri.results_requested ix =
        (case ps ''results_requested'' of None \<Rightarrow> PInt 1 | Some v \<Rightarrow> v)"
    if "Indri_init env ps tr = (tr', Inr ix)"
    using that
    by (auto simp: Indri_init_def Let_def split: sum.splits option.splits)
  have b: "BingWebSearch.results_requested b =
        (case ps ''results_requested'' of None \<Rightarrow> PInt 1 | Some v \<Rightarrow> v)"
    if "BingWebSearch_init ps tr2 = (tr2', Inr b)"
    using that
    by (auto simp: BingWebSearch_init_def Let_def split: sum.splits option.splits if_splits)
  have b1: "length docs \<le> 1"
    if "ps ''results_requested'' = None" "BingWebSearch_init ps tr2 = (tr2', Inr b)"
       "BingWebSearch_retrieve env b query t = (t', Inr docs)"
  proof -
    from b [OF that(2)] that(1) have rr: "BingWebSearch.results_requested b = PInt 1" by simp
    from bing_retrieve_order [OF that(3)] obtain v :: "hit list" and n where
      "as_int (BingWebSearch.results_requested b) = Inr n"
      "length docs = nat (min (int (length v)) n)"
      by blast
    with rr show ?thesis by simp
  qed
  have i1: "\<exists>evs. t2' = t2 @ IndexQuery query (PInt 1) # evs"
    if "ps ''results_requested'' = None" "Indri_init env ps tr = (tr', Inr ix)"
       "Indri_retrieve env ix query t2 = (t2', r)"
  proof -
    from i [OF that(2)] that(1) have rr: "Indri.results_requested ix = PInt 1" by simp
    from indri_retrieve_trace [OF that(3)] rr show ?thesis by simp
  qed
  from i b b1 i1 show ?thesis by blast
qed


theorem results_requested_default_witness:
  "(\<exists>tr' b. BingWebSearch_init example_params_default ([] :: string event list) = (tr', Inr b) \<and>
            BingWebSearch.results_requested b = PInt 1) \<and>
   (\<exists>tr' b. BingWebSearch_init example_params ([] :: string event list) = (tr', Inr b) \<and>
            BingWebSearch.results_requested b = PInt 3) \<and>
   (\<exists>tr' ix. Indri_init example_env example_params_default [] = (tr', Inr ix) \<and>
            Indri.results_requested ix = PInt 1) \<and>
   (\<exists>tr' ix. Indri_init example_env example_params [] = (tr', Inr ix) \<and>
            Indri.results_requested ix = PInt 3)"
proof -
  obtain t1 b1 where
    e1: "BingWebSearch_init example_params_default ([] :: string event list) = (t1, Inr b1)"
    by (simp add: BingWebSearch_init_def Retrieval_init_def example_params_default_def)
  from results_requested_default [THEN conjunct2, THEN conjunct1, THEN mp, OF e1]
  have r1: "BingWebSearch.results_requested b1 = PInt 1"
    by (simp add: example_params_default_def)
  obtain t2 b2 where
    e2: "BingWebSearch_init example_params ([] :: string event list) = (t2, Inr b2)"
    by (simp add: BingWebSearch_init_def Retrieval_init_def example_params_def)
  from results_requested_default [THEN conjunct2, THEN conjunct1, THEN mp, OF e2]
  have r2: "BingWebSearch.results_requested b2 = PInt 3"
    by (simp add: example_params_def)
  obtain t3 i3 where
    e3: "Indri_init example_env example_params_default [] = (t3, Inr i3)"
    by (simp add: Indri_init_def Retrieval_init_def example_params_default_def example_env_def)
  from results_requested_default [THEN conjunct1, THEN mp, OF e3]
  have r3: "Indri.results_requested i3 = PInt 1"
    by (simp add: example_params_default_def)
  obtain t4 i4 where
    e4: "Indri_init example_env example_params [] = (t4, Inr i4)"
    by (simp add: Indri_init_def Retrieval_init_def example_params_def example_env_def)
  from results_requested_default [THEN conjunct1, THEN mp, OF e4]
  have r4: "Indri.results_requested i4 = PInt 3"
    by (simp add: example_params_def)
  from e1 r1 e2 r2 e3 r3 e4 r4 show ?thesis by (intro conjI exI)
qed

end
